theory Spec2Isabelle
  imports Main
begin

section \<open>JavaScript values as the server sees them\<close>

text \<open>
  Every frame is handed to \<^verbatim>\<open>JSON.parse\<close>. The parser is a library function: a frame is
  modelled by what the parser makes of it, either a syntax error (\<open>Unparseable\<close>) or the
  parsed value. Numbers are the integers; an object is the association list of its own
  properties, looked up by key.
\<close>

datatype json =
    JNull
  | JBool bool
  | JNum int
  | JStr string
  | JArr "json list"
  | JObj "(string \<times> json) list"

datatype frame = Unparseable | Parsed json

text \<open>
  \<^verbatim>\<open>message.key\<close> on a parsed value other than \<^verbatim>\<open>null\<close>: an object yields its own property,
  every other value yields \<^verbatim>\<open>undefined\<close> (\<open>None\<close>) for each key the server reads
  (type, jsonrpc, method, result, error, id, params, name, arguments, uri, payload).
  On \<^verbatim>\<open>null\<close> the access throws a TypeError; the callers below write that branch out.
\<close>

fun get_prop :: "json \<Rightarrow> string \<Rightarrow> json option" where
  "get_prop (JObj kvs) k = map_of kvs k"
| "get_prop _ k = None"

text \<open>JavaScript truthiness of a possibly undefined value.\<close>

fun truthy :: "json option \<Rightarrow> bool" where
  "truthy None = False"
| "truthy (Some JNull) = False"
| "truthy (Some (JBool b)) = b"
| "truthy (Some (JNum n)) = (n \<noteq> 0)"
| "truthy (Some (JStr s)) = (s \<noteq> [])"
| "truthy (Some (JArr xs)) = True"
| "truthy (Some (JObj kvs)) = True"

text \<open>
  String conversion inside a template literal \<^verbatim>\<open>`${v}`\<close>. A number is written in decimal,
  as JavaScript writes an integer of magnitude below 10^21; beyond that JavaScript uses
  the exponent form, and no statement below depends on the text of such a number.
\<close>

fun show_nat :: "nat \<Rightarrow> string" where
  "show_nat n =
     (if n < 10 then [char_of (48 + n)]
      else show_nat (n div 10) @ [char_of (48 + n mod 10)])"

definition show_int :: "int \<Rightarrow> string" where
  "show_int i = (if i < 0 then CHR ''-'' # show_nat (nat (- i)) else show_nat (nat i))"

fun join_comma :: "string list \<Rightarrow> string" where
  "join_comma [] = []"
| "join_comma [x] = x"
| "join_comma (x # y # ys) = x @ '','' @ join_comma (y # ys)"

fun js_string :: "json \<Rightarrow> string" where
  "js_string JNull = ''null''"
| "js_string (JBool b) = (if b then ''true'' else ''false'')"
| "js_string (JNum n) = show_int n"
| "js_string (JStr s) = s"
| "js_string (JArr xs) =
     join_comma (map (\<lambda>x. if x = JNull then [] else js_string x) xs)"
| "js_string (JObj kvs) = ''[object Object]''"

definition template :: "json option \<Rightarrow> string" where
  "template v = (case v of None \<Rightarrow> ''undefined'' | Some x \<Rightarrow> js_string x)"

text \<open>
  \<^verbatim>\<open>JSON.stringify\<close> of an object literal: a property whose value is \<^verbatim>\<open>undefined\<close> is left
  out, the others are written in order. What goes on the wire is modelled by the value a
  peer parses back.
\<close>

fun stringify :: "(string \<times> json option) list \<Rightarrow> (string \<times> json) list" where
  "stringify [] = []"
| "stringify ((k, None) # kvs) = stringify kvs"
| "stringify ((k, Some v) # kvs) = (k, v) # stringify kvs"

section \<open>Tools, resources and the execution context\<close>

type_synonym WebSocket = nat

text \<open>
  Modelled from the spec: the Context class (module context) is not among the sources.
  The Execution Context owns zero or one executor channel; \<open>hasWs\<close> tells whether the
  slot is occupied, the setter installs a channel, and the close handler of the server
  writes \<^verbatim>\<open>null\<close> into the private field \<^verbatim>\<open>_ws\<close>.
\<close>

record Context =
  ws_slot :: "WebSocket option"

definition hasWs :: "Context \<Rightarrow> bool" where
  "hasWs c = (ws_slot c \<noteq> None)"

text \<open>
  Modelled from the spec: the Tool and Resource types (modules tools/tool and
  resources/resource) are not among the sources. A tool is a descriptor (name,
  description, input schema) with a handler taking the context and the arguments; the
  handler either throws an error carrying a message (\<open>Inl\<close>) or returns a result, which
  may be \<^verbatim>\<open>undefined\<close>. A resource is keyed by its URI and read by a reader of the same
  kind.
\<close>

record ToolSchema =
  name :: string
  description :: string
  inputSchema :: json

record Tool =
  schema :: ToolSchema
  handle :: "Context \<Rightarrow> json option \<Rightarrow> string + json option"

record ResourceSchema =
  uri :: string
  other_properties :: "(string \<times> json) list"

record Resource =
  rschema :: ResourceSchema
  read :: "Context \<Rightarrow> json option \<Rightarrow> string + json option"

definition tool_json :: "ToolSchema \<Rightarrow> json" where
  "tool_json t =
     JObj [(''name'', JStr (name t)), (''description'', JStr (description t)),
           (''inputSchema'', inputSchema t)]"

definition resource_json :: "ResourceSchema \<Rightarrow> json" where
  "resource_json r = JObj ((''uri'', JStr (uri r)) # other_properties r)"

section \<open>The WebSocket MCP server\<close>

datatype ConnectionType = Unknown | Extension | MCP

text \<open>
  The fields of the class, the \<open>connectionType\<close> variable each connection's closure
  holds, and three traces of what the server did: the frames it sent (socket and parsed
  payload), the sockets it called \<^verbatim>\<open>close()\<close> on, and the tool handlers it ran (tool name
  and arguments). A callback is run to its end: what it awaits (a tool handler, a resource
  reader) is a function of the context and the arguments, and \<^verbatim>\<open>ws.send\<close> does not throw.
\<close>

record server =
  tools :: "Tool list"
  resources :: "Resource list"
  context_obj :: Context
  extensionConnections :: "WebSocket set"
  mcpConnections :: "WebSocket set"
  connectionType :: "WebSocket \<Rightarrow> ConnectionType"
  sent :: "(WebSocket \<times> json) list"
  closed :: "WebSocket list"
  invoked :: "(string \<times> json option) list"

definition ws_send :: "WebSocket \<Rightarrow> json \<Rightarrow> server \<Rightarrow> server" where
  "ws_send ws v s = s\<lparr>sent := sent s @ [(ws, v)]\<rparr>"

definition ws_close :: "WebSocket \<Rightarrow> server \<Rightarrow> server" where
  "ws_close ws s = s\<lparr>closed := closed s @ [ws]\<rparr>"

definition isExtensionMessage :: "json \<Rightarrow> bool" where
  "isExtensionMessage message =
     (truthy (get_prop message ''type'') \<and>
      (case get_prop message ''type'' of
         Some (JStr t) \<Rightarrow> t \<in> set [''auth'', ''capabilities'', ''ping'']
       | _ \<Rightarrow> False))"

definition isMCPMessage :: "json \<Rightarrow> bool" where
  "isMCPMessage message =
     (get_prop message ''jsonrpc'' = Some (JStr ''2.0'') \<and>
      (truthy (get_prop message ''method'') \<or> get_prop message ''result'' \<noteq> None
         \<or> get_prop message ''error'' \<noteq> None))"

definition sendMCPResponse ::
  "WebSocket \<Rightarrow> json option \<Rightarrow> json option \<Rightarrow> server \<Rightarrow> server" where
  "sendMCPResponse ws ident result s =
     ws_send ws
       (JObj (stringify [(''jsonrpc'', Some (JStr ''2.0'')), (''id'', ident),
                         (''result'', result)])) s"

definition sendMCPError ::
  "WebSocket \<Rightarrow> json option \<Rightarrow> int \<Rightarrow> string \<Rightarrow> server \<Rightarrow> server" where
  "sendMCPError ws ident code msg s =
     ws_send ws
       (JObj (stringify [(''jsonrpc'', Some (JStr ''2.0'')), (''id'', ident),
                         (''error'', Some (JObj [(''code'', JNum code),
                                                 (''message'', JStr msg)]))])) s"

text \<open>\<open>now\<close> is the reading of \<^verbatim>\<open>Date.now()\<close> when the message is handled.\<close>

definition handleExtensionMessage :: "int \<Rightarrow> WebSocket \<Rightarrow> json \<Rightarrow> server \<Rightarrow> server" where
  "handleExtensionMessage now ws message s =
     (if get_prop message ''type'' = Some (JStr ''auth'') then
        ws_send ws (JObj [(''type'', JStr ''auth_success'')]) s
      else if get_prop message ''type'' = Some (JStr ''capabilities'') then
        ws_send ws (JObj [(''type'', JStr ''capabilities_received'')]) s
      else if get_prop message ''type'' = Some (JStr ''ping'') then
        ws_send ws (JObj [(''type'', JStr ''pong''), (''timestamp'', JNum now)]) s
      else s)"

definition handleToolsList :: "WebSocket \<Rightarrow> json \<Rightarrow> server \<Rightarrow> server" where
  "handleToolsList ws message s =
     sendMCPResponse ws (get_prop message ''id'')
       (Some (JObj [(''tools'', JArr (map (\<lambda>tool. tool_json (schema tool)) (tools s)))])) s"

text \<open>
  \<open>handleToolCall\<close> and \<open>handleResourceRead\<close> destructure \<^verbatim>\<open>message.params\<close> first: on
  \<^verbatim>\<open>undefined\<close> or \<^verbatim>\<open>null\<close> that throws a TypeError, which leaves the function (\<open>Inl\<close>) and
  is caught by \<open>handleMCPMessage\<close>. \<^verbatim>\<open>t.schema.name === name\<close> holds for a string equal to
  the tool's name only.
\<close>

definition handleToolCall :: "WebSocket \<Rightarrow> json \<Rightarrow> server \<Rightarrow> unit + server" where
  "handleToolCall ws message s =
     (case get_prop message ''params'' of
        None \<Rightarrow> Inl ()
      | Some params \<Rightarrow>
          if params = JNull then Inl () else
          (let nm = get_prop params ''name''; args = get_prop params ''arguments'' in
           case find (\<lambda>t. Some (JStr (name (schema t))) = nm) (tools s) of
             None \<Rightarrow>
               Inr (sendMCPError ws (get_prop message ''id'') (- 32602)
                      (''Tool not found: '' @ template nm) s)
           | Some tool \<Rightarrow>
               (let s1 = s\<lparr>invoked := invoked s @ [(name (schema tool), args)]\<rparr> in
                case handle tool (context_obj s) args of
                  Inr result \<Rightarrow> Inr (sendMCPResponse ws (get_prop message ''id'') result s1)
                | Inl err \<Rightarrow>
                    Inr (sendMCPError ws (get_prop message ''id'') (- 32603)
                           (''Tool execution failed: '' @ err) s1))))"

definition handleResourcesList :: "WebSocket \<Rightarrow> json \<Rightarrow> server \<Rightarrow> server" where
  "handleResourcesList ws message s =
     sendMCPResponse ws (get_prop message ''id'')
       (Some (JObj [(''resources'',
                     JArr (map (\<lambda>resource. resource_json (rschema resource)) (resources s)))])) s"

definition handleResourceRead :: "WebSocket \<Rightarrow> json \<Rightarrow> server \<Rightarrow> unit + server" where
  "handleResourceRead ws message s =
     (case get_prop message ''params'' of
        None \<Rightarrow> Inl ()
      | Some params \<Rightarrow>
          if params = JNull then Inl () else
          (let u = get_prop params ''uri'' in
           case find (\<lambda>r. Some (JStr (uri (rschema r))) = u) (resources s) of
             None \<Rightarrow>
               Inr (sendMCPError ws (get_prop message ''id'') (- 32602)
                      (''Resource not found: '' @ template u) s)
           | Some resource \<Rightarrow>
               (case read resource (context_obj s) u of
                  Inr contents \<Rightarrow>
                    Inr (sendMCPResponse ws (get_prop message ''id'')
                           (Some (JObj (stringify [(''contents'', contents)]))) s)
                | Inl err \<Rightarrow>
                    Inr (sendMCPError ws (get_prop message ''id'') (- 32603)
                           (''Resource read failed: '' @ err) s))))"

definition handleMCPMessage :: "WebSocket \<Rightarrow> json \<Rightarrow> server \<Rightarrow> server" where
  "handleMCPMessage ws message s =
     (if get_prop message ''method'' = Some (JStr ''tools/list'') then handleToolsList ws message s
      else if get_prop message ''method'' = Some (JStr ''tools/call'') then
        (case handleToolCall ws message s of
           Inr s' \<Rightarrow> s'
         | Inl _ \<Rightarrow> sendMCPError ws (get_prop message ''id'') (- 32603) ''Internal error'' s)
      else if get_prop message ''method'' = Some (JStr ''resources/list'') then
        handleResourcesList ws message s
      else if get_prop message ''method'' = Some (JStr ''resources/read'') then
        (case handleResourceRead ws message s of
           Inr s' \<Rightarrow> s'
         | Inl _ \<Rightarrow> sendMCPError ws (get_prop message ''id'') (- 32603) ''Internal error'' s)
      else
        sendMCPError ws (get_prop message ''id'') (- 32601)
          (''Method not found: '' @ template (get_prop message ''method'')) s)"

text \<open>The reply of the outer \<^verbatim>\<open>catch\<close> of the message callback.\<close>

definition parse_error :: json where
  "parse_error =
     JObj [(''error'', JObj [(''code'', JNum (- 32700)), (''message'', JStr ''Parse error'')])]"

text \<open>The classification block of the message callback, run while the type is unknown.\<close>

definition classify :: "WebSocket \<Rightarrow> json \<Rightarrow> server \<Rightarrow> server" where
  "classify ws message s =
     (if connectionType s ws = Unknown then
        (if isExtensionMessage message then
           (let s1 = s\<lparr>connectionType := (connectionType s)(ws := Extension),
                        extensionConnections := insert ws (extensionConnections s)\<rparr>;
                s2 = (if hasWs (context_obj s1) then ws_close (the (ws_slot (context_obj s1))) s1
                      else s1)
            in s2\<lparr>context_obj := (context_obj s2)\<lparr>ws_slot := Some ws\<rparr>\<rparr>)
         else if isMCPMessage message then
           s\<lparr>connectionType := (connectionType s)(ws := MCP),
             mcpConnections := insert ws (mcpConnections s)\<rparr>
         else s)
      else s)"

text \<open>
  The \<^verbatim>\<open>message\<close> callback of \<open>handleConnection\<close>. A frame that does not parse throws in
  \<^verbatim>\<open>JSON.parse\<close>; the value \<^verbatim>\<open>null\<close> throws a TypeError at the first property read
  (\<^verbatim>\<open>message.type\<close> in \<open>isExtensionMessage\<close> or \<open>handleExtensionMessage\<close>, \<^verbatim>\<open>message.method\<close>
  at the head of \<open>handleMCPMessage\<close>, before its own \<^verbatim>\<open>try\<close>), in every connection type.
  Both land in the outer \<^verbatim>\<open>catch\<close>.
\<close>

definition on_message :: "int \<Rightarrow> WebSocket \<Rightarrow> frame \<Rightarrow> server \<Rightarrow> server" where
  "on_message now ws data s =
     (case data of
        Unparseable \<Rightarrow> ws_send ws parse_error s
      | Parsed message \<Rightarrow>
          if message = JNull then ws_send ws parse_error s else
          (let s1 = classify ws message s in
           if connectionType s1 ws = Extension then handleExtensionMessage now ws message s1
           else if connectionType s1 ws = MCP then handleMCPMessage ws message s1
           else s1))"

text \<open>The \<^verbatim>\<open>close\<close> callback of \<open>handleConnection\<close>.\<close>

definition on_close :: "WebSocket \<Rightarrow> server \<Rightarrow> server" where
  "on_close ws s =
     (let s1 = s\<lparr>extensionConnections := extensionConnections s - {ws},
                  mcpConnections := mcpConnections s - {ws}\<rparr>
      in if hasWs (context_obj s1) \<and> ws_slot (context_obj s1) = Some ws
         then s1\<lparr>context_obj := (context_obj s1)\<lparr>ws_slot := None\<rparr>\<rparr>
         else s1)"

text \<open>A new connection starts with \<open>connectionType = 'unknown'\<close>.\<close>

definition handleConnection :: "WebSocket \<Rightarrow> server \<Rightarrow> server" where
  "handleConnection ws s = s\<lparr>connectionType := (connectionType s)(ws := Unknown)\<rparr>"

text \<open>The server as the constructor leaves it.\<close>

definition new_server :: "Tool list \<Rightarrow> Resource list \<Rightarrow> server" where
  "new_server ts rs =
     \<lparr>tools = ts, resources = rs, context_obj = \<lparr>ws_slot = None\<rparr>,
      extensionConnections = {}, mcpConnections = {},
      connectionType = (\<lambda>_. Unknown), sent = [], closed = [], invoked = []\<rparr>"

section \<open>The tool types and the static tool list\<close>

text \<open>
  The zod schemas of the types module, as far as the tool arguments use them. An object
  schema accepts an object whose listed properties are accepted by their schemas (unknown
  keys are allowed); an optional property may be \<^verbatim>\<open>undefined\<close>.
\<close>

datatype zod =
    ZString
  | ZNumber
  | ZBoolean
  | ZEnum "string list"
  | ZOptional zod
  | ZObject "(string \<times> zod) list"

fun zod_ok :: "zod \<Rightarrow> json option \<Rightarrow> bool" where
  "zod_ok ZString v = (case v of Some (JStr _) \<Rightarrow> True | _ \<Rightarrow> False)"
| "zod_ok ZNumber v = (case v of Some (JNum _) \<Rightarrow> True | _ \<Rightarrow> False)"
| "zod_ok ZBoolean v = (case v of Some (JBool _) \<Rightarrow> True | _ \<Rightarrow> False)"
| "zod_ok (ZEnum xs) v = (case v of Some (JStr x) \<Rightarrow> List.member xs x | _ \<Rightarrow> False)"
| "zod_ok (ZOptional z) v = (if v = None then True else zod_ok z v)"
| "zod_ok (ZObject fs) v =
     (case v of
        Some (JObj kvs) \<Rightarrow> list_all (\<lambda>(k, z). zod_ok z (map_of kvs k)) fs
      | _ \<Rightarrow> False)"

record ToolType =
  name_literal :: string
  description_literal :: string
  arguments :: zod

definition NavigateTool :: ToolType where
  "NavigateTool =
     \<lparr>name_literal = ''navigate'',
      description_literal = ''Navigate to a URL or use browser history'',
      arguments = ZObject [(''url'', ZOptional ZString),
                           (''direction'', ZOptional (ZEnum [''back'', ''forward'', ''reload'']))]\<rparr>"

definition GoBackTool :: ToolType where
  "GoBackTool =
     \<lparr>name_literal = ''go_back'',
      description_literal = ''Navigate back in browser history'',
      arguments = ZObject []\<rparr>"

definition GoForwardTool :: ToolType where
  "GoForwardTool =
     \<lparr>name_literal = ''go_forward'',
      description_literal = ''Navigate forward in browser history'',
      arguments = ZObject []\<rparr>"

definition ClickTool :: ToolType where
  "ClickTool =
     \<lparr>name_literal = ''click'',
      description_literal = ''Click on an element on the page'',
      arguments = ZObject [(''element'', ZString)]\<rparr>"

definition TypeTool :: ToolType where
  "TypeTool =
     \<lparr>name_literal = ''type'',
      description_literal = ''Type text into an input field'',
      arguments = ZObject [(''element'', ZString), (''text'', ZString),
                           (''clear'', ZOptional ZBoolean)]\<rparr>"

definition HoverTool :: ToolType where
  "HoverTool =
     \<lparr>name_literal = ''hover'',
      description_literal = ''Hover over an element'',
      arguments = ZObject [(''element'', ZString)]\<rparr>"

definition SelectOptionTool :: ToolType where
  "SelectOptionTool =
     \<lparr>name_literal = ''select_option'',
      description_literal = ''Select an option from a dropdown'',
      arguments = ZObject [(''element'', ZString), (''value'', ZOptional ZString),
                           (''text'', ZOptional ZString), (''index'', ZOptional ZNumber)]\<rparr>"

definition DragTool :: ToolType where
  "DragTool =
     \<lparr>name_literal = ''drag'',
      description_literal = ''Drag an element to another location'',
      arguments = ZObject [(''startElement'', ZString), (''endElement'', ZString)]\<rparr>"

definition SnapshotTool :: ToolType where
  "SnapshotTool =
     \<lparr>name_literal = ''snapshot'',
      description_literal = ''Take a snapshot of the current page structure'',
      arguments = ZObject []\<rparr>"

definition ScreenshotTool :: ToolType where
  "ScreenshotTool =
     \<lparr>name_literal = ''screenshot'',
      description_literal = ''Take a screenshot of the current page'',
      arguments = ZObject [(''fullPage'', ZOptional ZBoolean)]\<rparr>"

definition GetConsoleLogsTool :: ToolType where
  "GetConsoleLogsTool =
     \<lparr>name_literal = ''get_console_logs'',
      description_literal = ''Get console logs from the current page'',
      arguments = ZObject [(''level'', ZOptional (ZEnum [''log'', ''info'', ''warn'', ''error'']))]\<rparr>"

definition PressKeyTool :: ToolType where
  "PressKeyTool =
     \<lparr>name_literal = ''press_key'',
      description_literal = ''Press a keyboard key'',
      arguments = ZObject [(''key'', ZString)]\<rparr>"

definition WaitTool :: ToolType where
  "WaitTool =
     \<lparr>name_literal = ''wait'',
      description_literal = ''Wait for a specified amount of time'',
      arguments = ZObject [(''milliseconds'', ZNumber)]\<rparr>"

text \<open>
  Modelled from the spec: the tool modules (tools/common, tools/custom, tools/snapshot)
  that build the entries of the static tool list are not among the sources. The spec's
  exposed tool surface is navigate, go_back, go_forward, click, hover, type,
  select_option, snapshot, screenshot, get_console_logs, press_key, wait; each entry is
  given the name and description of its tool type above. The rendering of an argument
  schema as a JSON schema (\<open>render\<close>) and the handlers (\<open>handler\<close>, by tool name) are
  parameters.
\<close>

type_synonym handler = "Context \<Rightarrow> json option \<Rightarrow> string + json option"

definition make_tool :: "(zod \<Rightarrow> json) \<Rightarrow> (string \<Rightarrow> handler) \<Rightarrow> ToolType \<Rightarrow> Tool" where
  "make_tool render handler t =
     \<lparr>schema = \<lparr>name = name_literal t, description = description_literal t,
                 inputSchema = render (arguments t)\<rparr>,
      handle = handler (name_literal t)\<rparr>"

text \<open>The lists of the entry module, in its order.\<close>

definition commonTools :: "(zod \<Rightarrow> json) \<Rightarrow> (string \<Rightarrow> handler) \<Rightarrow> Tool list" where
  "commonTools render handler = map (make_tool render handler) [PressKeyTool, WaitTool]"

definition customTools :: "(zod \<Rightarrow> json) \<Rightarrow> (string \<Rightarrow> handler) \<Rightarrow> Tool list" where
  "customTools render handler =
     map (make_tool render handler) [GetConsoleLogsTool, ScreenshotTool]"

definition snapshotTools :: "(zod \<Rightarrow> json) \<Rightarrow> (string \<Rightarrow> handler) \<Rightarrow> Tool list" where
  "snapshotTools render handler =
     map (make_tool render handler)
       [NavigateTool, GoBackTool, GoForwardTool, SnapshotTool, ClickTool, HoverTool,
        TypeTool, SelectOptionTool]
     @ commonTools render handler @ customTools render handler"

text \<open>A handler that returns its arguments, for concrete runs.\<close>

definition echo_handler :: "string \<Rightarrow> handler" where
  "echo_handler nm c args = Inr args"

section \<open>The socket message sender\<close>

text \<open>
  \<open>createSocketMessageSender\<close> works on one socket. Its state is what the calls leave
  behind: the frames written, the \<^verbatim>\<open>message\<close> listeners registered (each \<open>handleMessage\<close>
  closure with the promise and the message id it holds), the armed timeouts (the promise
  each will reject and the time it is due) and the promises created, by index.
\<close>

datatype settled = Pending | Resolved "json option" | Rejected string

record socket =
  wire :: "json list"
  listeners :: "(nat \<times> string) list"
  timers :: "(nat \<times> nat) list"
  promises :: "settled list"

definition new_socket :: socket where
  "new_socket = \<lparr>wire = [], listeners = [], timers = [], promises = []\<rparr>"

text \<open>\<^verbatim>\<open>resolve\<close> and \<^verbatim>\<open>reject\<close>: a promise settles once, a later call changes nothing.\<close>

definition settle :: "nat \<Rightarrow> settled \<Rightarrow> socket \<Rightarrow> socket" where
  "settle p v k =
     (if p < length (promises k) \<and> promises k ! p = Pending
      then k\<lparr>promises := (promises k)[p := v]\<rparr> else k)"

definition clearTimeout :: "nat \<Rightarrow> socket \<Rightarrow> socket" where
  "clearTimeout p k = k\<lparr>timers := filter (\<lambda>(q, due). q \<noteq> p) (timers k)\<rparr>"

definition ws_off :: "nat \<Rightarrow> socket \<Rightarrow> socket" where
  "ws_off p k = k\<lparr>listeners := filter (\<lambda>(q, i). q \<noteq> p) (listeners k)\<rparr>"

text \<open>
  \<open>sendSocketMessage\<close> at time \<open>now\<close>. \<open>messageId\<close> is what \<^verbatim>\<open>Math.random\<close> gave;
  \<open>send_error\<close> is the error \<^verbatim>\<open>ws.send\<close> throws, if it throws. The result is the
  promise returned and the socket's new state.
\<close>

definition sendSocketMessage ::
  "nat \<Rightarrow> string option \<Rightarrow> string \<Rightarrow> json option \<Rightarrow> nat option \<Rightarrow> string \<Rightarrow> socket
     \<Rightarrow> nat \<times> socket" where
  "sendSocketMessage now send_error type payload options messageId k =
     (let timeoutMs = (case options of None \<Rightarrow> 30000 | Some t \<Rightarrow> t);
          p = length (promises k);
          k1 = k\<lparr>promises := promises k @ [Pending],
                 timers := timers k @ [(p, now + timeoutMs)]\<rparr>;
          message = JObj (stringify [(''id'', Some (JStr messageId)),
                                     (''type'', Some (JStr type)), (''payload'', payload)])
      in case send_error of
           None \<Rightarrow>
             (p, k1\<lparr>wire := wire k1 @ [message],
                    listeners := listeners k1 @ [(p, messageId)]\<rparr>)
         | Some err \<Rightarrow> (p, settle p (Rejected err) (clearTimeout p k1)))"

text \<open>The timeout callback of promise \<open>p\<close>.\<close>

definition on_timeout :: "nat \<Rightarrow> socket \<Rightarrow> socket" where
  "on_timeout p k = settle p (Rejected ''Message timeout'') k"

text \<open>Time reaches \<open>now\<close>: every armed timeout that is due runs, in the order armed.\<close>

definition run_timers :: "nat \<Rightarrow> socket \<Rightarrow> socket" where
  "run_timers now k =
     fold (\<lambda>(p, due). on_timeout p) (filter (\<lambda>(p, due). due \<le> now) (timers k))
       (k\<lparr>timers := filter (\<lambda>(p, due). \<not> due \<le> now) (timers k)\<rparr>)"

text \<open>
  The listener \<open>handleMessage\<close> of promise \<open>p\<close>. A frame that does not parse, and the value
  \<^verbatim>\<open>null\<close> (reading \<^verbatim>\<open>response.id\<close> throws), end in its empty \<^verbatim>\<open>catch\<close>.
\<close>

definition handleMessage :: "frame \<Rightarrow> nat \<times> string \<Rightarrow> socket \<Rightarrow> socket" where
  "handleMessage data l k =
     (case data of
        Unparseable \<Rightarrow> k
      | Parsed response \<Rightarrow>
          if response = JNull then k else
          (if get_prop response ''id'' = Some (JStr (snd l))
           then settle (fst l) (Resolved (get_prop response ''payload''))
                  (ws_off (fst l) (clearTimeout (fst l) k))
           else k))"

text \<open>A frame arrives on the socket: the listeners registered at that moment run in order.\<close>

definition deliver :: "frame \<Rightarrow> socket \<Rightarrow> socket" where
  "deliver data k = fold (handleMessage data) (listeners k) k"

section \<open>Forwarding to the executor\<close>

text \<open>The configuration module.\<close>

definition mcpConfig_errors_noConnectedTab :: string where
  "mcpConfig_errors_noConnectedTab = ''No connected tab available''"

definition mcpConfig_websocket_timeout :: nat where
  "mcpConfig_websocket_timeout = 30000"

definition mcpConfig_defaultWsPort :: nat where
  "mcpConfig_defaultWsPort = 9234"

datatype failure = NoExecutorError string

text \<open>
  Modelled from the spec: the forwarding primitive of the Execution Context
  (\<open>sendToExecutor\<close>, a method of the Context class) is not among the sources. The spec:
  it generates a fresh correlation ID, serializes \<^verbatim>\<open>{id, type, payload}\<close> onto the current
  executor channel, registers a Pending Request with the given timeout (default 30000 ms)
  and returns a deferred result; if no executor channel is current at call time, it fails
  immediately (kind: no executor connected) without registering anything. With a channel
  it is \<open>sendSocketMessage\<close> on that channel's socket; without one the failure carries the
  configured message and every socket is left as it was.
\<close>

definition sendToExecutor ::
  "Context \<Rightarrow> nat \<Rightarrow> string option \<Rightarrow> string \<Rightarrow> json option \<Rightarrow> nat option \<Rightarrow> string
     \<Rightarrow> (WebSocket \<Rightarrow> socket) \<Rightarrow> (failure + WebSocket \<times> nat) \<times> (WebSocket \<Rightarrow> socket)" where
  "sendToExecutor c now send_error type payload options messageId socks =
     (case ws_slot c of
        None \<Rightarrow> (Inl (NoExecutorError mcpConfig_errors_noConnectedTab), socks)
      | Some ws \<Rightarrow>
          (let r = sendSocketMessage now send_error type payload options messageId (socks ws)
           in (Inr (ws, fst r), socks(ws := snd r))))"

section \<open>What the handlers leave untouched\<close>

lemmas send_defs = ws_send_def sendMCPResponse_def sendMCPError_def

lemma classify_frame:
  "tools (classify ws m s) = tools s"
  "resources (classify ws m s) = resources s"
  "sent (classify ws m s) = sent s"
  "invoked (classify ws m s) = invoked s"
  by (simp_all add: classify_def Let_def ws_close_def hasWs_def)

lemma handleMCPMessage_frame:
  "connectionType (handleMCPMessage ws m s) = connectionType s"
  "mcpConnections (handleMCPMessage ws m s) = mcpConnections s"
  "extensionConnections (handleMCPMessage ws m s) = extensionConnections s"
  "context_obj (handleMCPMessage ws m s) = context_obj s"
  "closed (handleMCPMessage ws m s) = closed s"
  by (simp_all add: handleMCPMessage_def handleToolsList_def handleToolCall_def
      handleResourcesList_def handleResourceRead_def send_defs Let_def
      split: option.splits sum.splits)

lemma handleExtensionMessage_frame:
  "connectionType (handleExtensionMessage now ws m s) = connectionType s"
  "mcpConnections (handleExtensionMessage now ws m s) = mcpConnections s"
  "extensionConnections (handleExtensionMessage now ws m s) = extensionConnections s"
  "context_obj (handleExtensionMessage now ws m s) = context_obj s"
  "closed (handleExtensionMessage now ws m s) = closed s"
  "invoked (handleExtensionMessage now ws m s) = invoked s"
  by (simp_all add: handleExtensionMessage_def send_defs)

lemma on_message_parsed:
  "m \<noteq> JNull \<Longrightarrow>
   on_message now ws (Parsed m) s =
     (if connectionType (classify ws m s) ws = Extension
      then handleExtensionMessage now ws m (classify ws m s)
      else if connectionType (classify ws m s) ws = MCP
      then handleMCPMessage ws m (classify ws m s)
      else classify ws m s)"
  by (simp add: on_message_def Let_def)

text \<open>
  No handler reads the trace of sent frames: started with another trace, a handler does
  the same and appends the same frames.
\<close>

lemma classify_sent:
  "classify ws m (s\<lparr>sent := xs\<rparr>) = (classify ws m s)\<lparr>sent := xs\<rparr>"
  by (simp add: classify_def Let_def ws_close_def hasWs_def)

lemma handleExtensionMessage_sent:
  "handleExtensionMessage now ws m (s\<lparr>sent := xs\<rparr>) =
     (handleExtensionMessage now ws m s)
       \<lparr>sent := xs @ drop (length (sent s)) (sent (handleExtensionMessage now ws m s))\<rparr>"
  by (simp add: handleExtensionMessage_def send_defs)

lemma handleToolCall_sent:
  "handleToolCall ws m (s\<lparr>sent := xs\<rparr>) =
     map_sum id (\<lambda>t. t\<lparr>sent := xs @ drop (length (sent s)) (sent t)\<rparr>)
       (handleToolCall ws m s)"
  by (simp add: handleToolCall_def send_defs Let_def split: option.splits sum.splits)

lemma handleResourceRead_sent:
  "handleResourceRead ws m (s\<lparr>sent := xs\<rparr>) =
     map_sum id (\<lambda>t. t\<lparr>sent := xs @ drop (length (sent s)) (sent t)\<rparr>)
       (handleResourceRead ws m s)"
  by (simp add: handleResourceRead_def send_defs Let_def split: option.splits sum.splits)

lemma handleMCPMessage_sent:
  "handleMCPMessage ws m (s\<lparr>sent := xs\<rparr>) =
     (handleMCPMessage ws m s)
       \<lparr>sent := xs @ drop (length (sent s)) (sent (handleMCPMessage ws m s))\<rparr>"
  by (cases "handleToolCall ws m s"; cases "handleResourceRead ws m s")
     (simp_all add: handleMCPMessage_def handleToolsList_def handleToolCall_sent
      handleResourcesList_def handleResourceRead_sent send_defs)

lemma on_message_sent:
  "on_message now ws f (s\<lparr>sent := xs\<rparr>) =
     (on_message now ws f s)
       \<lparr>sent := xs @ drop (length (sent s)) (sent (on_message now ws f s))\<rparr>"
  by (cases f)
     (simp_all add: on_message_def classify_sent classify_frame handleMCPMessage_sent
      handleExtensionMessage_sent Let_def ws_send_def)

section \<open>Classification of a connection\<close>

text \<open>
  Claim C1, as amended. The controller rule of the code reads the property \<^verbatim>\<open>jsonrpc\<close>, and
  it is tried after the executor rule. For every connection still unknown whose message
  parses to a value other than \<^verbatim>\<open>null\<close>, is not an executor message, and has \<^verbatim>\<open>jsonrpc\<close>
  equal to the string "2.0" with a truthy \<^verbatim>\<open>method\<close> or a \<^verbatim>\<open>result\<close> or an \<^verbatim>\<open>error\<close>: the
  connection becomes \<open>mcp\<close> on that message, it is added to the set of MCP connections,
  and the message is handed to \<open>handleMCPMessage\<close>.
\<close>

theorem first_mcp_message_classified:
  assumes "connectionType s ws = Unknown" and "m \<noteq> JNull"
    and "\<not> isExtensionMessage m" and "isMCPMessage m"
  shows "on_message now ws (Parsed m) s =
           handleMCPMessage ws m
             (s\<lparr>connectionType := (connectionType s)(ws := MCP),
                mcpConnections := insert ws (mcpConnections s)\<rparr>)
         \<and> connectionType (on_message now ws (Parsed m) s) ws = MCP
         \<and> ws \<in> mcpConnections (on_message now ws (Parsed m) s)"
  using assms by (simp add: on_message_parsed classify_def handleMCPMessage_frame)

theorem first_mcp_message_classified_witness:
  "connectionType (new_server [] []) 1 = Unknown
   \<and> connectionType
        (on_message 0 1
           (Parsed (JObj [(''jsonrpc'', JStr ''2.0''), (''id'', JNum 1),
                          (''method'', JStr ''tools/list''), (''params'', JObj [])]))
           (new_server [] [])) 1 = MCP
   \<and> 1 \<in> mcpConnections
        (on_message 0 1
           (Parsed (JObj [(''jsonrpc'', JStr ''2.0''), (''id'', JNum 1),
                          (''method'', JStr ''tools/list''), (''params'', JObj [])]))
           (new_server [] []))"
  using first_mcp_message_classified
    [of "new_server [] []" 1
        "JObj [(''jsonrpc'', JStr ''2.0''), (''id'', JNum 1),
               (''method'', JStr ''tools/list''), (''params'', JObj [])]" 0]
  by (simp add: new_server_def isExtensionMessage_def isMCPMessage_def
      handleMCPMessage_frame)

text \<open>
  Claim C1 as the spec words it fails: the request envelope of the spec, with the property
  \<^verbatim>\<open>protocolVersion\<close>, sent first on a new connection, leaves the connection unknown and
  outside the set of MCP connections, and nothing is handled or answered.
\<close>

theorem protocolVersion_envelope_counterexample:
  "connectionType
     (on_message 0 1
        (Parsed (JObj [(''protocolVersion'', JStr ''2.0''), (''id'', JNum 1),
                       (''method'', JStr ''tools/list''), (''params'', JObj [])]))
        (new_server [] [])) 1 = Unknown
   \<and> 1 \<notin> mcpConnections
        (on_message 0 1
           (Parsed (JObj [(''protocolVersion'', JStr ''2.0''), (''id'', JNum 1),
                          (''method'', JStr ''tools/list''), (''params'', JObj [])]))
           (new_server [] []))
   \<and> sent
        (on_message 0 1
           (Parsed (JObj [(''protocolVersion'', JStr ''2.0''), (''id'', JNum 1),
                          (''method'', JStr ''tools/list''), (''params'', JObj [])]))
           (new_server [] [])) = []"
  by (simp add: on_message_def classify_def new_server_def isExtensionMessage_def
      isMCPMessage_def)

text \<open>
  Claim C10, as amended. For every connection still unknown and every message that parses
  to a value other than \<^verbatim>\<open>null\<close> and satisfies neither \<open>isExtensionMessage\<close> nor
  \<open>isMCPMessage\<close>, handling the message changes nothing: no frame is sent, the socket is
  not closed, the connection stays unknown, and the next message is classified afresh.
\<close>

theorem unmatched_first_message_ignored:
  assumes "connectionType s ws = Unknown" and "m \<noteq> JNull"
    and "\<not> isExtensionMessage m" and "\<not> isMCPMessage m"
  shows "on_message now ws (Parsed m) s = s"
  using assms by (simp add: on_message_parsed classify_def)

theorem unmatched_first_message_ignored_witness:
  "connectionType (new_server [] []) 1 = Unknown
   \<and> on_message 0 1 (Parsed (JObj [(''hello'', JStr ''world'')])) (new_server [] [])
       = new_server [] []"
  using unmatched_first_message_ignored
    [of "new_server [] []" 1 "JObj [(''hello'', JStr ''world'')]" 0]
  by (simp add: new_server_def isExtensionMessage_def isMCPMessage_def)

text \<open>
  Claim C10 as stated fails on the frame \<^verbatim>\<open>null\<close>: it parses as JSON and carries neither a
  type nor a jsonrpc property, yet on a connection still unknown the server answers it
  with the parse-error envelope.
\<close>

theorem null_first_message_counterexample:
  "connectionType (new_server [] []) 1 = Unknown
   \<and> sent (on_message 0 1 (Parsed JNull) (new_server [] [])) = [(1, parse_error)]
   \<and> connectionType (on_message 0 1 (Parsed JNull) (new_server [] [])) 1 = Unknown"
  by (simp add: on_message_def new_server_def ws_send_def)

section \<open>Malformed frames\<close>

text \<open>
  Claim C7. On every connection, a frame that does not parse is answered on that
  connection with an envelope whose error has code -32700, and nothing else of the server
  changes. Any later frame, on any connection, is then handled exactly as it would have
  been without the malformed frame, its replies following the parse error.
\<close>

theorem malformed_frame_parse_error:
  "on_message now ws Unparseable s = s\<lparr>sent := sent s @ [(ws, parse_error)]\<rparr>
   \<and> get_prop parse_error ''error''
       = Some (JObj [(''code'', JNum (- 32700)), (''message'', JStr ''Parse error'')])
   \<and> on_message now' ws' f (on_message now ws Unparseable s) =
       (on_message now' ws' f s)
         \<lparr>sent := sent s @ (ws, parse_error)
                   # drop (length (sent s)) (sent (on_message now' ws' f s))\<rparr>"
proof -
  have a: "on_message now ws Unparseable s = s\<lparr>sent := sent s @ [(ws, parse_error)]\<rparr>"
    by (simp add: on_message_def ws_send_def)
  have b: "get_prop parse_error ''error''
             = Some (JObj [(''code'', JNum (- 32700)), (''message'', JStr ''Parse error'')])"
    by (simp add: parse_error_def)
  show ?thesis
    unfolding a
    using b on_message_sent
      [where now = now' and ws = ws' and f = f and s = s
         and xs = "sent s @ [(ws, parse_error)]"]
    by simp
qed

theorem malformed_frame_parse_error_witness:
  "sent (on_message 0 1 Unparseable (new_server [] [])) = [(1, parse_error)]
   \<and> sent (on_message 5 1 (Parsed (JObj [(''type'', JStr ''ping'')]))
            (on_message 0 1 Unparseable (new_server [] [])))
       = [(1, parse_error), (1, JObj [(''type'', JStr ''pong''), (''timestamp'', JNum 5)])]"
  using malformed_frame_parse_error
    [of 0 1 "new_server [] []" 5 1 "Parsed (JObj [(''type'', JStr ''ping'')])"]
  by (simp add: new_server_def on_message_def classify_def isExtensionMessage_def
      handleExtensionMessage_def hasWs_def ws_send_def)

section \<open>Closing a connection\<close>

text \<open>
  Claim C8. When a connection closes it is removed from both sets, and the context's
  channel is cleared exactly when the closing connection is the current channel: closing
  any other connection leaves the context as it was. Nothing is installed in its place,
  and no other field of the server changes.
\<close>

theorem close_detaches_only_current:
  "extensionConnections (on_close ws s) = extensionConnections s - {ws}
   \<and> mcpConnections (on_close ws s) = mcpConnections s - {ws}
   \<and> ws_slot (context_obj (on_close ws s))
       = (if ws_slot (context_obj s) = Some ws then None else ws_slot (context_obj s))
   \<and> (ws_slot (context_obj s) \<noteq> Some ws \<longrightarrow> context_obj (on_close ws s) = context_obj s)
   \<and> connectionType (on_close ws s) = connectionType s
   \<and> sent (on_close ws s) = sent s \<and> closed (on_close ws s) = closed s
   \<and> invoked (on_close ws s) = invoked s
   \<and> tools (on_close ws s) = tools s \<and> resources (on_close ws s) = resources s"
  by (simp add: on_close_def hasWs_def Let_def)

theorem close_detaches_only_current_witness:
  "ws_slot (context_obj
      (on_close 2 (on_message 0 2 (Parsed (JObj [(''type'', JStr ''auth'')]))
                     (new_server [] [])))) = None
   \<and> ws_slot (context_obj
      (on_close 1 (on_message 0 2 (Parsed (JObj [(''type'', JStr ''auth'')]))
                     (new_server [] [])))) = Some 2"
  using close_detaches_only_current
    [of 2 "on_message 0 2 (Parsed (JObj [(''type'', JStr ''auth'')])) (new_server [] [])"]
    close_detaches_only_current
    [of 1 "on_message 0 2 (Parsed (JObj [(''type'', JStr ''auth'')])) (new_server [] [])"]
  by (simp add: new_server_def on_message_def classify_def isExtensionMessage_def
      handleExtensionMessage_def hasWs_def ws_send_def)

section \<open>Replacing the executor channel\<close>

text \<open>
  Claim C2. The context holds at most one channel. In every state where a channel \<open>old\<close>
  is current, a connection still unknown whose message is an executor message (type auth,
  capabilities or ping) becomes an extension connection, \<open>old\<close> is closed, and the new
  connection is installed as the current channel; forwarding through the context then
  writes to the new connection's socket and to no other.
\<close>

theorem second_executor_replaces_first:
  assumes "connectionType s ws = Unknown" and "m \<noteq> JNull" and "isExtensionMessage m"
    and "ws_slot (context_obj s) = Some old"
  shows "closed (on_message now ws (Parsed m) s) = closed s @ [old]
       \<and> ws_slot (context_obj (on_message now ws (Parsed m) s)) = Some ws
       \<and> connectionType (on_message now ws (Parsed m) s) ws = Extension
       \<and> ws \<in> extensionConnections (on_message now ws (Parsed m) s)
       \<and> sendToExecutor (context_obj (on_message now ws (Parsed m) s))
            t err ty payload opts mid socks
           = (Inr (ws, fst (sendSocketMessage t err ty payload opts mid (socks ws))),
              socks(ws := snd (sendSocketMessage t err ty payload opts mid (socks ws))))"
  using assms
  by (simp add: on_message_parsed classify_def handleExtensionMessage_frame Let_def
      hasWs_def ws_close_def sendToExecutor_def)

theorem second_executor_replaces_first_witness:
  "connectionType (on_message 0 1 (Parsed (JObj [(''type'', JStr ''auth'')])) (new_server [] [])) 2 = Unknown
   \<and> isExtensionMessage (JObj [(''type'', JStr ''ping'')])
   \<and> ws_slot (context_obj (on_message 0 1 (Parsed (JObj [(''type'', JStr ''auth'')])) (new_server [] []))) = Some 1
   \<and> closed (on_message 9 2 (Parsed (JObj [(''type'', JStr ''ping'')])) (on_message 0 1 (Parsed (JObj [(''type'', JStr ''auth'')])) (new_server [] []))) = [1]
   \<and> ws_slot (context_obj (on_message 9 2 (Parsed (JObj [(''type'', JStr ''ping'')])) (on_message 0 1 (Parsed (JObj [(''type'', JStr ''auth'')])) (new_server [] [])))) = Some 2
   \<and> wire (snd (sendToExecutor (context_obj (on_message 9 2 (Parsed (JObj [(''type'', JStr ''ping'')])) (on_message 0 1 (Parsed (JObj [(''type'', JStr ''auth'')])) (new_server [] [])))) 20 None ''browser_click''
          (Some (JObj [(''element'', JStr ''#go'')])) None ''k3j9x0q2m'' (\<lambda>w. new_socket)) 2)
       = [JObj [(''id'', JStr ''k3j9x0q2m''), (''type'', JStr ''browser_click''),
                (''payload'', JObj [(''element'', JStr ''#go'')])]]
   \<and> wire (snd (sendToExecutor (context_obj (on_message 9 2 (Parsed (JObj [(''type'', JStr ''ping'')])) (on_message 0 1 (Parsed (JObj [(''type'', JStr ''auth'')])) (new_server [] [])))) 20 None ''browser_click''
          (Some (JObj [(''element'', JStr ''#go'')])) None ''k3j9x0q2m'' (\<lambda>w. new_socket)) 1) = []"
  using second_executor_replaces_first
    [of "on_message 0 1 (Parsed (JObj [(''type'', JStr ''auth'')])) (new_server [] [])" 2 "JObj [(''type'', JStr ''ping'')]" 1 9 20 None "''browser_click''"
        "Some (JObj [(''element'', JStr ''#go'')])" None "''k3j9x0q2m''" "\<lambda>w. new_socket"]
  by (simp add: new_server_def on_message_def classify_def isExtensionMessage_def
      handleExtensionMessage_def hasWs_def ws_send_def ws_close_def sendToExecutor_def
      sendSocketMessage_def new_socket_def Let_def)

section \<open>Forwarding without an executor\<close>

text \<open>
  Claim C5. Whenever no executor channel is current, \<open>sendToExecutor\<close> fails at once with
  the no-executor failure, whose message is the configured "No connected tab available";
  no socket is touched, so no timer is armed, no listener is registered and no promise is
  left pending.
\<close>

theorem no_executor_rejects_immediately:
  "ws_slot c = None \<Longrightarrow>
   sendToExecutor c now err ty payload opts mid socks
     = (Inl (NoExecutorError ''No connected tab available''), socks)"
  by (simp add: sendToExecutor_def mcpConfig_errors_noConnectedTab_def)

theorem no_executor_rejects_immediately_witness:
  "ws_slot (context_obj (new_server [] [])) = None
   \<and> fst (sendToExecutor (context_obj (new_server [] [])) 0 None ''browser_click''
           (Some (JObj [(''element'', JStr ''#go'')])) None ''k3j9x0q2m'' (\<lambda>w. new_socket))
       = Inl (NoExecutorError ''No connected tab available'')
   \<and> snd (sendToExecutor (context_obj (new_server [] [])) 0 None ''browser_click''
           (Some (JObj [(''element'', JStr ''#go'')])) None ''k3j9x0q2m'' (\<lambda>w. new_socket)) 1
       = new_socket"
  using no_executor_rejects_immediately
    [of "context_obj (new_server [] [])" 0 None "''browser_click''"
        "Some (JObj [(''element'', JStr ''#go'')])" None "''k3j9x0q2m''" "\<lambda>w. new_socket"]
  by (simp add: new_server_def)

section \<open>Calling and listing tools\<close>

lemma error_reply_props:
  "get_prop (JObj (stringify [(''jsonrpc'', Some (JStr ''2.0'')), (''id'', ident),
                              (''error'', Some e)])) ''id'' = ident"
  "get_prop (JObj (stringify [(''jsonrpc'', Some (JStr ''2.0'')), (''id'', ident),
                              (''error'', Some e)])) ''error'' = Some e"
  by (cases ident; simp)+

lemma result_reply_props:
  "get_prop (JObj (stringify [(''jsonrpc'', Some (JStr ''2.0'')), (''id'', ident),
                              (''result'', r)])) ''id'' = ident"
  "get_prop (JObj (stringify [(''jsonrpc'', Some (JStr ''2.0'')), (''id'', ident),
                              (''result'', r)])) ''result'' = r"
  "get_prop (JObj (stringify [(''jsonrpc'', Some (JStr ''2.0'')), (''id'', ident),
                              (''result'', r)])) ''error'' = None"
  by (cases ident; cases r; simp)+

lemma snapshotTools_names:
  "map (\<lambda>t. name (schema t)) (snapshotTools render handler) =
     [''navigate'', ''go_back'', ''go_forward'', ''snapshot'', ''click'', ''hover'', ''type'',
      ''select_option'', ''press_key'', ''wait'', ''get_console_logs'', ''screenshot'']"
  by (simp add: snapshotTools_def commonTools_def customTools_def make_tool_def
      NavigateTool_def GoBackTool_def GoForwardTool_def SnapshotTool_def ClickTool_def
      HoverTool_def TypeTool_def SelectOptionTool_def PressKeyTool_def WaitTool_def
      GetConsoleLogsTool_def ScreenshotTool_def)

lemma tool_json_name: "get_prop (tool_json t) ''name'' = Some (JStr (name t))"
  by (simp add: tool_json_def)




text \<open>
  Claim C4, as amended. The server does not validate the arguments of a tools/call
  request. For every tools/call request handled on a controller connection whose params
  can be destructured and name a tool of the registry, the handler of that tool is run
  with the arguments as supplied, whatever the tool's argument schema says of them; the
  one reply carries the request's \<open>id\<close> and is the handler's result, or, when the handler
  throws, an error envelope with code -32603.
\<close>

theorem tool_call_runs_handler_unvalidated:
  assumes "m \<noteq> JNull" and "connectionType (classify ws m s) ws = MCP"
    and "get_prop m ''method'' = Some (JStr ''tools/call'')"
    and "get_prop m ''params'' = Some params" and "params \<noteq> JNull"
    and "find (\<lambda>t. Some (JStr (name (schema t))) = get_prop params ''name'') (tools s)
           = Some tool"
  shows "invoked (on_message now ws (Parsed m) s)
           = invoked s @ [(name (schema tool), get_prop params ''arguments'')]
       \<and> (\<exists>reply. sent (on_message now ws (Parsed m) s) = sent s @ [(ws, reply)]
             \<and> get_prop reply ''id'' = get_prop m ''id''
             \<and> (case handle tool (context_obj (classify ws m s))
                        (get_prop params ''arguments'') of
                  Inr result \<Rightarrow>
                    get_prop reply ''result'' = result \<and> get_prop reply ''error'' = None
                | Inl err \<Rightarrow>
                    get_prop reply ''error''
                      = Some (JObj [(''code'', JNum (- 32603)),
                                    (''message'', JStr (''Tool execution failed: '' @ err))])))"
proof -
  let ?args = "get_prop params ''arguments''"
  let ?s1 = "(classify ws m s)\<lparr>invoked := invoked s @ [(name (schema tool), ?args)]\<rparr>"
  have a: "on_message now ws (Parsed m) s =
             (case handle tool (context_obj (classify ws m s)) ?args of
                Inr result \<Rightarrow> sendMCPResponse ws (get_prop m ''id'') result ?s1
              | Inl err \<Rightarrow>
                  sendMCPError ws (get_prop m ''id'') (- 32603)
                    (''Tool execution failed: '' @ err) ?s1)"
    using assms
    by (simp add: on_message_parsed handleMCPMessage_def handleToolCall_def classify_frame
        Let_def split: sum.splits)
  show ?thesis
    unfolding a
    by (cases "handle tool (context_obj (classify ws m s)) ?args")
       (simp_all add: send_defs classify_frame error_reply_props result_reply_props
        del: get_prop.simps stringify.simps)
qed

theorem tool_call_runs_handler_unvalidated_witness:
  "connectionType (classify 1 (JObj [(''jsonrpc'', JStr ''2.0''), (''id'', JNum 7), (''method'', JStr ''tools/call''),
                    (''params'', JObj [(''name'', JStr ''click''), (''arguments'', JObj [])])]) (new_server (snapshotTools (\<lambda>z. JObj []) echo_handler) [])) 1 = MCP
   \<and> invoked (on_message 0 1 (Parsed (JObj [(''jsonrpc'', JStr ''2.0''), (''id'', JNum 7), (''method'', JStr ''tools/call''),
                    (''params'', JObj [(''name'', JStr ''click''), (''arguments'', JObj [])])])) (new_server (snapshotTools (\<lambda>z. JObj []) echo_handler) []))
       = [(''click'', Some (JObj []))]
   \<and> sent (on_message 0 1 (Parsed (JObj [(''jsonrpc'', JStr ''2.0''), (''id'', JNum 7), (''method'', JStr ''tools/call''),
                    (''params'', JObj [(''name'', JStr ''click''), (''arguments'', JObj [])])])) (new_server (snapshotTools (\<lambda>z. JObj []) echo_handler) []))
       = [(1, JObj [(''jsonrpc'', JStr ''2.0''), (''id'', JNum 7), (''result'', JObj [])])]"
  using tool_call_runs_handler_unvalidated
    [of "JObj [(''jsonrpc'', JStr ''2.0''), (''id'', JNum 7), (''method'', JStr ''tools/call''),
                    (''params'', JObj [(''name'', JStr ''click''), (''arguments'', JObj [])])]" 1 "new_server (snapshotTools (\<lambda>z. JObj []) echo_handler) []"
        "JObj [(''name'', JStr ''click''), (''arguments'', JObj [])]"
        "make_tool (\<lambda>z. JObj []) echo_handler ClickTool" 0]
  by (simp add: new_server_def on_message_def classify_def isExtensionMessage_def
      isMCPMessage_def handleMCPMessage_def handleToolCall_def echo_handler_def
      send_defs Let_def snapshotTools_def commonTools_def customTools_def make_tool_def
      NavigateTool_def GoBackTool_def GoForwardTool_def SnapshotTool_def ClickTool_def
      HoverTool_def TypeTool_def SelectOptionTool_def PressKeyTool_def WaitTool_def
      GetConsoleLogsTool_def ScreenshotTool_def)

text \<open>
  Claim C4 as stated fails. The empty argument object does not satisfy the argument
  schema of the click tool, which requires a string \<open>element\<close>; a tools/call request for
  click with these arguments still runs the tool's handler, and the reply is the
  handler's result, not an error.
\<close>

theorem invalid_arguments_reach_handler_counterexample:
  "\<not> zod_ok (arguments ClickTool) (Some (JObj []))
   \<and> invoked (on_message 0 1 (Parsed (JObj [(''jsonrpc'', JStr ''2.0''), (''id'', JNum 7), (''method'', JStr ''tools/call''),
                    (''params'', JObj [(''name'', JStr ''click''), (''arguments'', JObj [])])])) (new_server (snapshotTools (\<lambda>z. JObj []) echo_handler) []))
       = [(''click'', Some (JObj []))]
   \<and> sent (on_message 0 1 (Parsed (JObj [(''jsonrpc'', JStr ''2.0''), (''id'', JNum 7), (''method'', JStr ''tools/call''),
                    (''params'', JObj [(''name'', JStr ''click''), (''arguments'', JObj [])])])) (new_server (snapshotTools (\<lambda>z. JObj []) echo_handler) []))
       = [(1, JObj [(''jsonrpc'', JStr ''2.0''), (''id'', JNum 7), (''result'', JObj [])])]"
  by (simp add: new_server_def on_message_def classify_def isExtensionMessage_def
      isMCPMessage_def handleMCPMessage_def handleToolCall_def echo_handler_def
      send_defs Let_def snapshotTools_def commonTools_def customTools_def make_tool_def
      NavigateTool_def GoBackTool_def GoForwardTool_def SnapshotTool_def ClickTool_def
      HoverTool_def TypeTool_def SelectOptionTool_def PressKeyTool_def WaitTool_def
      GetConsoleLogsTool_def ScreenshotTool_def)

text \<open>
  Claim C9. For every tools/list request handled on a controller connection, the server
  replies with a result whose \<open>tools\<close> sequence has one entry per tool of the registry, in
  order and under the tools' names. For the static tool list that is twelve entries, one
  of them named snapshot, with no name occurring twice.
\<close>

theorem tools_list_returns_registry:
  assumes "m \<noteq> JNull" and "connectionType (classify ws m s) ws = MCP"
    and "get_prop m ''method'' = Some (JStr ''tools/list'')"
  shows "\<exists>ts reply.
           on_message now ws (Parsed m) s =
             sendMCPResponse ws (get_prop m ''id'') (Some (JObj [(''tools'', JArr ts)]))
               (classify ws m s)
         \<and> sent (on_message now ws (Parsed m) s) = sent s @ [(ws, reply)]
         \<and> get_prop reply ''result'' = Some (JObj [(''tools'', JArr ts)])
         \<and> get_prop reply ''error'' = None
         \<and> get_prop reply ''id'' = get_prop m ''id''
         \<and> length ts = length (tools s)
         \<and> map (\<lambda>t. get_prop t ''name'') ts
             = map (\<lambda>t. Some (JStr (name (schema t)))) (tools s)
         \<and> (tools s = snapshotTools render handler \<longrightarrow>
              length ts = 12
              \<and> Some (JStr ''snapshot'') \<in> set (map (\<lambda>t. get_prop t ''name'') ts)
              \<and> distinct (map (\<lambda>t. get_prop t ''name'') ts))"
proof -
  let ?ts = "map (\<lambda>tool. tool_json (schema tool)) (tools s)"
  let ?r = "Some (JObj [(''tools'', JArr ?ts)])"
  let ?reply = "JObj (stringify [(''jsonrpc'', Some (JStr ''2.0'')), (''id'', get_prop m ''id''),
                                 (''result'', ?r)])"
  have a: "on_message now ws (Parsed m) s
             = sendMCPResponse ws (get_prop m ''id'') ?r (classify ws m s)"
    using assms
    by (simp add: on_message_parsed handleMCPMessage_def handleToolsList_def classify_frame)
  have b: "sent (on_message now ws (Parsed m) s) = sent s @ [(ws, ?reply)]"
    unfolding a by (simp add: send_defs classify_frame del: stringify.simps)
  have n: "map (\<lambda>t. get_prop t ''name'') ?ts
             = map (\<lambda>t. Some (JStr (name (schema t)))) (tools s)"
    by (simp add: tool_json_name del: get_prop.simps)
  have c: "length ?ts = 12
           \<and> Some (JStr ''snapshot'') \<in> set (map (\<lambda>t. get_prop t ''name'') ?ts)
           \<and> distinct (map (\<lambda>t. get_prop t ''name'') ?ts)"
    if st: "tools s = snapshotTools render handler"
  proof -
    have nm: "map (\<lambda>t. get_prop t ''name'') ?ts =
                map (\<lambda>x. Some (JStr x))
                  (map (\<lambda>t. name (schema t)) (snapshotTools render handler))"
      using n unfolding st by (simp add: o_def)
    have "length ?ts = 12"
      using arg_cong [OF snapshotTools_names [of render handler], of length] st by simp
    moreover have "Some (JStr ''snapshot'') \<in> set (map (\<lambda>t. get_prop t ''name'') ?ts)"
      unfolding nm snapshotTools_names by simp
    moreover have "distinct (map (\<lambda>t. get_prop t ''name'') ?ts)"
      unfolding nm snapshotTools_names by simp
    ultimately show ?thesis by blast
  qed
  have d: "get_prop ?reply ''result'' = ?r" "get_prop ?reply ''error'' = None"
    "get_prop ?reply ''id'' = get_prop m ''id''"
    by (rule result_reply_props)+
  from a b n c d show ?thesis
    by (intro exI [of _ ?ts] exI [of _ ?reply]) (simp del: get_prop.simps stringify.simps)
qed

theorem tools_list_returns_registry_witness:
  "connectionType (classify 1 (JObj [(''jsonrpc'', JStr ''2.0''), (''id'', JNum 1), (''method'', JStr ''tools/list''),
                    (''params'', JObj [])]) (new_server (snapshotTools (\<lambda>z. JObj []) echo_handler) [])) 1 = MCP
   \<and> (\<exists>ts. sent (on_message 0 1 (Parsed (JObj [(''jsonrpc'', JStr ''2.0''), (''id'', JNum 1), (''method'', JStr ''tools/list''),
                    (''params'', JObj [])])) (new_server (snapshotTools (\<lambda>z. JObj []) echo_handler) []))
              = [(1, JObj [(''jsonrpc'', JStr ''2.0''), (''id'', JNum 1),
                           (''result'', JObj [(''tools'', JArr ts)])])]
          \<and> length ts = 12
          \<and> map (\<lambda>t. get_prop t ''name'') ts
              = map (\<lambda>x. Some (JStr x))
                  [''navigate'', ''go_back'', ''go_forward'', ''snapshot'', ''click'', ''hover'',
                   ''type'', ''select_option'', ''press_key'', ''wait'', ''get_console_logs'',
                   ''screenshot''])"
  using tools_list_returns_registry
    [of "JObj [(''jsonrpc'', JStr ''2.0''), (''id'', JNum 1), (''method'', JStr ''tools/list''),
                    (''params'', JObj [])]" 1 "new_server (snapshotTools (\<lambda>z. JObj []) echo_handler) []" 0 "\<lambda>z. JObj []" echo_handler]
  by (simp add: new_server_def on_message_def classify_def isExtensionMessage_def
      isMCPMessage_def handleMCPMessage_def handleToolsList_def tool_json_def
      send_defs snapshotTools_def commonTools_def customTools_def make_tool_def
      NavigateTool_def GoBackTool_def GoForwardTool_def SnapshotTool_def ClickTool_def
      HoverTool_def TypeTool_def SelectOptionTool_def PressKeyTool_def WaitTool_def
      GetConsoleLogsTool_def ScreenshotTool_def)

section \<open>Timeout of a forwarded request\<close>

text \<open>
  Claim C3, evaluated on the code. A message is sent at time 0 with the default timeout
  and no response arrives. The promise is still pending at 29999 ms and is rejected with
  "Message timeout" at 30000 ms; the listener registered for the message id is still on
  the socket after the timeout. A response with that id arriving later leaves the promise
  rejected, and only then is the listener removed.
\<close>

theorem timeout_leaves_listener_registered:
  "promises (run_timers 29999 (snd (sendSocketMessage 0 None ''browser_click''
        (Some (JObj [(''element'', JStr ''#go'')])) None ''k3j9x0q2m'' new_socket))) = [Pending]
   \<and> promises (run_timers 30000 (snd (sendSocketMessage 0 None ''browser_click''
        (Some (JObj [(''element'', JStr ''#go'')])) None ''k3j9x0q2m'' new_socket))) = [Rejected ''Message timeout'']
   \<and> timers (run_timers 30000 (snd (sendSocketMessage 0 None ''browser_click''
        (Some (JObj [(''element'', JStr ''#go'')])) None ''k3j9x0q2m'' new_socket))) = []
   \<and> listeners (run_timers 30000 (snd (sendSocketMessage 0 None ''browser_click''
        (Some (JObj [(''element'', JStr ''#go'')])) None ''k3j9x0q2m'' new_socket))) = [(0, ''k3j9x0q2m'')]
   \<and> promises (deliver (Parsed (JObj [(''id'', JStr ''k3j9x0q2m''), (''payload'', JObj [])])) (run_timers 30000 (snd (sendSocketMessage 0 None ''browser_click''
        (Some (JObj [(''element'', JStr ''#go'')])) None ''k3j9x0q2m'' new_socket))))
       = [Rejected ''Message timeout'']
   \<and> listeners (deliver (Parsed (JObj [(''id'', JStr ''k3j9x0q2m''), (''payload'', JObj [])])) (run_timers 30000 (snd (sendSocketMessage 0 None ''browser_click''
        (Some (JObj [(''element'', JStr ''#go'')])) None ''k3j9x0q2m'' new_socket)))) = []"
  by (simp add: sendSocketMessage_def new_socket_def run_timers_def on_timeout_def
      settle_def deliver_def handleMessage_def ws_off_def clearTimeout_def Let_def)

end
